theory Spec2Isabelle
  imports Complex_Main "HOL-Library.Char_ord" "HOL-Library.List_Lexorder"
begin

section \<open>The labor market dashboard (BLS_app.py)\<close>

text \<open>
  The program is one script: it loads a table, adds a column of display names, reads a
  selection of display names and a range of years from two sidebar controls, filters the
  table, and derives from it the tables behind each chart, the summary statistics and
  the export. Each variable of the script is embedded as a function of the variables it
  is computed from; the two values returned by the sidebar controls are parameters, and
  the construction of the controls, the charts and the page is not part of the model.
  The pandas operations the script calls (\<^verbatim>\<open>map\<close>, \<^verbatim>\<open>fillna\<close>,
  \<^verbatim>\<open>unique\<close>, \<^verbatim>\<open>isin\<close>, \<^verbatim>\<open>between\<close>, indexing by a mask,
  \<^verbatim>\<open>merge\<close>, \<^verbatim>\<open>sum\<close>, \<^verbatim>\<open>groupby\<close>, \<^verbatim>\<open>describe\<close>,
  \<^verbatim>\<open>to_csv\<close>) are
  embedded by what they compute on a table held as the list of its rows, in file order.
  Numbers of the \<^verbatim>\<open>value\<close> column are real numbers (the rounding of binary floating
  point is not modelled) and a blank cell is \<open>None\<close>, the missing value that pandas
  reads it as.
\<close>

subsection \<open>Data model\<close>

text \<open>A parsed date is a count of nanoseconds, as \<^verbatim>\<open>datetime64[ns]\<close> holds it.\<close>

type_synonym timestamp = int

text \<open>One row of \<^verbatim>\<open>BLS_data.csv\<close> as \<^verbatim>\<open>load_data\<close> returns it.\<close>

record observation =
  series_id :: string
  date :: timestamp
  year :: int
  val :: "real option"

text \<open>One row of \<^verbatim>\<open>data\<close> once line 32 has added the column \<^verbatim>\<open>series_name\<close>.\<close>

record row = observation +
  series_name :: string

subsection \<open>Series catalog (lines 14--33)\<close>

text \<open>The dictionary \<^verbatim>\<open>series_names\<close>, in the order of its items.\<close>

definition series_names :: "(string \<times> string) list" where
  "series_names =
    [(''LNS12000000'', ''Civilian Employment''),
     (''LNS13000000'', ''Civilian Unemployment''),
     (''LNS14000000'', ''Unemployment Rate''),
     (''CES0000000001'', ''Total Nonfarm Employment''),
     (''CES0500000002'', ''Average Weekly Hours of All Employees''),
     (''CES0500000003'', ''Average Hourly Earnings of All Employees'')]"

text \<open>\<^verbatim>\<open>Series.map(dict)\<close> on one cell: a key the dictionary lacks gives a missing value.\<close>

definition map_dict :: "('k \<times> 'v) list \<Rightarrow> 'k \<Rightarrow> 'v option" where
  "map_dict d k = map_of d k"

text \<open>\<^verbatim>\<open>Series.fillna(v)\<close> on one cell.\<close>

definition fillna :: "'v \<Rightarrow> 'v option \<Rightarrow> 'v" where
  "fillna v c = (case c of None \<Rightarrow> v | Some x \<Rightarrow> x)"

text \<open>The cell of \<^verbatim>\<open>data['series_name']\<close> for a given \<^verbatim>\<open>series_id\<close> (lines 32--33).\<close>

definition displayName :: "string \<Rightarrow> string" where
  "displayName i = fillna ''Unknown Series'' (map_dict series_names i)"

definition annotate_row :: "observation \<Rightarrow> row" where
  "annotate_row ob =
    \<lparr>series_id = series_id ob, date = date ob, year = year ob, val = val ob,
     series_name = displayName (series_id ob)\<rparr>"

text \<open>\<^verbatim>\<open>data\<close> after lines 29--33, from what \<^verbatim>\<open>load_data\<close> returned.\<close>

definition annotate :: "observation list \<Rightarrow> row list" where
  "annotate raw = map annotate_row raw"

subsection \<open>Sidebar options (lines 42--50)\<close>

text \<open>\<^verbatim>\<open>Series.unique()\<close>: the distinct values in order of first appearance.\<close>

definition unique :: "'a list \<Rightarrow> 'a list" where
  "unique xs = rev (remdups (rev xs))"

definition available_options :: "row list \<Rightarrow> string list" where
  "available_options data = unique (map series_name data)"

definition default_options :: "row list \<Rightarrow> string list" where
  "default_options data =
    filter (\<lambda>opt. opt \<in> set (available_options data))
      [''Civilian Employment'', ''Civilian Unemployment'', ''Unemployment Rate'',
       ''Total Nonfarm Employment'', ''Average Weekly Hours of All Employees'',
       ''Average Hourly Earnings of All Employees'']"

subsection \<open>Filter (lines 74--83)\<close>

text \<open>
  \<^verbatim>\<open>selected_series_ids\<close>: the keys of \<^verbatim>\<open>series_names\<close>, in the order of its
  items, whose name is among the selected ones.
\<close>

definition selected_series_ids :: "string list \<Rightarrow> string list" where
  "selected_series_ids selected_series_names =
    map fst (filter (\<lambda>(series_id, name). name \<in> set selected_series_names) series_names)"

text \<open>\<^verbatim>\<open>Series.isin(values)\<close> and \<^verbatim>\<open>Series.between(left, right)\<close> on one cell.\<close>

definition isin :: "'a \<Rightarrow> 'a list \<Rightarrow> bool" where
  "isin x vals = (x \<in> set vals)"

definition between :: "int \<Rightarrow> int \<Rightarrow> int \<Rightarrow> bool" where
  "between x left right = (left \<le> x \<and> x \<le> right)"

text \<open>
  \<^verbatim>\<open>filtered_data\<close>: the rows of \<^verbatim>\<open>data\<close> where both masks hold, in the order of
  \<^verbatim>\<open>data\<close>. The range is the pair the slider returns.
\<close>

definition filtered_data :: "row list \<Rightarrow> string list \<Rightarrow> int \<times> int \<Rightarrow> row list" where
  "filtered_data data selected_series_names selected_years =
    filter (\<lambda>r. isin (series_id r) (selected_series_ids selected_series_names) \<and>
                between (year r) (fst selected_years) (snd selected_years)) data"

text \<open>
  The set of ids the specification calls \<open>idsOf(S)\<close>: the ids whose catalog display name
  is in the selection. It is written from the specification, to compare
  \<^const>\<open>selected_series_ids\<close> with.
\<close>

definition idsOf :: "string list \<Rightarrow> string set" where
  "idsOf S = {i. case map_of series_names i of None \<Rightarrow> False | Some n \<Rightarrow> n \<in> set S}"

subsection \<open>Line charts (lines 121 and 146)\<close>

text \<open>Both slices are taken from \<^verbatim>\<open>filtered_data\<close>.\<close>

definition unemployment_data :: "row list \<Rightarrow> row list" where
  "unemployment_data fd = filter (\<lambda>r. series_id r = ''LNS14000000'') fd"

definition nonfarm_data :: "row list \<Rightarrow> row list" where
  "nonfarm_data fd = filter (\<lambda>r. series_id r = ''CES0000000001'') fd"

subsection \<open>Weekly hours against hourly earnings (lines 194--200)\<close>

text \<open>Both slices are taken from \<^verbatim>\<open>data\<close>.\<close>

definition hours_data :: "row list \<Rightarrow> row list" where
  "hours_data data = filter (\<lambda>r. series_id r = ''CES0500000002'') data"

definition earnings_data :: "row list \<Rightarrow> row list" where
  "earnings_data data = filter (\<lambda>r. series_id r = ''CES0500000003'') data"

text \<open>One row of \<^verbatim>\<open>merged_data\<close>; \<open>on_date\<close> is its column \<^verbatim>\<open>date\<close>.\<close>

record comparison_row =
  on_date :: timestamp
  avg_weekly_hours :: "real option"
  avg_hourly_earnings :: "real option"

text \<open>
  \<^verbatim>\<open>pd.merge(left, right, on='date')\<close> of two frames of a date and one renamed value
  column: the default inner join, one row for every pair of a left and a right row
  with equal dates. Rows are listed in the order of the left frame, and under one left
  row in the order of the right frame.
\<close>

definition pd_merge ::
    "(timestamp \<times> real option) list \<Rightarrow> (timestamp \<times> real option) list \<Rightarrow> comparison_row list" where
  "pd_merge left right =
    concat (map (\<lambda>l. map (\<lambda>r. \<lparr>on_date = fst l, avg_weekly_hours = snd l,
                                  avg_hourly_earnings = snd r\<rparr>)
                           (filter (\<lambda>r. fst r = fst l) right)) left)"

definition merged_data :: "row list \<Rightarrow> comparison_row list" where
  "merged_data data =
    pd_merge (map (\<lambda>r. (date r, val r)) (hours_data data))
             (map (\<lambda>r. (date r, val r)) (earnings_data data))"

subsection \<open>Employment against unemployment (lines 275--286)\<close>

definition filtered_employment :: "row list \<Rightarrow> int \<times> int \<Rightarrow> row list" where
  "filtered_employment data selected_years =
    filter (\<lambda>r. series_id r = ''LNS12000000'' \<and>
                between (year r) (fst selected_years) (snd selected_years)) data"

definition filtered_unemployment :: "row list \<Rightarrow> int \<times> int \<Rightarrow> row list" where
  "filtered_unemployment data selected_years =
    filter (\<lambda>r. series_id r = ''LNS13000000'' \<and>
                between (year r) (fst selected_years) (snd selected_years)) data"

text \<open>The cells of a column that are not missing.\<close>

definition dropna :: "'a option list \<Rightarrow> 'a list" where
  "dropna cs = List.map_filter (\<lambda>c. c) cs"

text \<open>\<^verbatim>\<open>Series.sum()\<close>: missing cells are skipped; the sum of no cell is 0.\<close>

definition pd_sum :: "real option list \<Rightarrow> real" where
  "pd_sum cs = sum_list (dropna cs)"

definition employment_total :: "row list \<Rightarrow> int \<times> int \<Rightarrow> real" where
  "employment_total data selected_years = pd_sum (map val (filtered_employment data selected_years))"

definition unemployment_total :: "row list \<Rightarrow> int \<times> int \<Rightarrow> real" where
  "unemployment_total data selected_years =
    pd_sum (map val (filtered_unemployment data selected_years))"

definition pie_data :: "row list \<Rightarrow> int \<times> int \<Rightarrow> (string \<times> real) list" where
  "pie_data data selected_years =
    [(''Employment'', employment_total data selected_years),
     (''Unemployment'', unemployment_total data selected_years)]"

subsection \<open>Summary statistics (line 322)\<close>

text \<open>
  One row of \<^verbatim>\<open>describe()\<close>. The columns \<^verbatim>\<open>min\<close>, \<^verbatim>\<open>25%\<close>, \<^verbatim>\<open>50%\<close>,
  \<^verbatim>\<open>75%\<close> and \<^verbatim>\<open>max\<close> are \<open>minimum\<close>, \<open>p25\<close>, \<open>p50\<close>, \<open>p75\<close> and
  \<open>maximum\<close>; \<open>None\<close> is the NaN that pandas reports for a statistic that is undefined.
\<close>

record stats =
  count :: nat
  mean :: "real option"
  std :: "real option"
  minimum :: "real option"
  p25 :: "real option"
  p50 :: "real option"
  p75 :: "real option"
  maximum :: "real option"

definition pd_mean :: "real list \<Rightarrow> real option" where
  "pd_mean xs = (if xs = [] then None else Some (sum_list xs / real (length xs)))"

text \<open>The sample standard deviation (\<^verbatim>\<open>ddof=1\<close>): undefined below two values.\<close>

definition pd_std :: "real list \<Rightarrow> real option" where
  "pd_std xs =
    (if length xs \<le> 1 then None
     else let m = sum_list xs / real (length xs)
          in Some (sqrt (sum_list (map (\<lambda>x. (x - m)\<^sup>2) xs) / real (length xs - 1))))"

definition pd_min :: "real list \<Rightarrow> real option" where
  "pd_min xs = (if xs = [] then None else Some (Min (set xs)))"

definition pd_max :: "real list \<Rightarrow> real option" where
  "pd_max xs = (if xs = [] then None else Some (Max (set xs)))"

text \<open>
  \<^verbatim>\<open>quantile(q)\<close> with linear interpolation: at position \<open>q * (n - 1)\<close> of the sorted
  values, between the two neighbours when the position is not whole.
\<close>

definition pd_quantile :: "real list \<Rightarrow> real \<Rightarrow> real option" where
  "pd_quantile xs q =
    (if xs = [] then None
     else let s = sort xs;
              pos = q * real (length xs - 1);
              i = nat \<lfloor>pos\<rfloor>;
              j = nat \<lceil>pos\<rceil>
          in Some (s ! i + (s ! j - s ! i) * (pos - real i)))"

definition describe :: "real option list \<Rightarrow> stats" where
  "describe cs =
    (let xs = dropna cs
     in \<lparr>count = length xs, mean = pd_mean xs, std = pd_std xs, minimum = pd_min xs,
         p25 = pd_quantile xs (1 / 4), p50 = pd_quantile xs (1 / 2),
         p75 = pd_quantile xs (3 / 4), maximum = pd_max xs\<rparr>)"

text \<open>
  \<^verbatim>\<open>groupby('series_name')['value'].describe()\<close>: one entry for each name that occurs
  in the frame, in sorted order of the names, holding the statistics of the
  \<^verbatim>\<open>value\<close> cells of the rows with that name.
\<close>

definition summary :: "row list \<Rightarrow> (string \<times> stats) list" where
  "summary fd =
    map (\<lambda>g. (g, describe (map val (filter (\<lambda>r. series_name r = g) fd))))
        (sort (remdups (map series_name fd)))"

subsection \<open>The script\<close>

text \<open>
  What one run of the script hands to the page, from the loaded table and the values of
  the two sidebar controls: the table behind each chart, the summary, the table shown
  at line 327 and the frame whose \<^verbatim>\<open>to_csv\<close> text the download button offers.
\<close>

record views =
  unemployment_chart :: "row list"
  nonfarm_chart :: "row list"
  comparison_chart :: "comparison_row list"
  pie_chart :: "(string \<times> real) list"
  summary_table :: "(string \<times> stats) list"
  data_table :: "row list"
  download :: "row list"

definition dashboard :: "observation list \<Rightarrow> string list \<Rightarrow> int \<times> int \<Rightarrow> views" where
  "dashboard raw selected_series_names selected_years =
    (let data = annotate raw;
         fd = filtered_data data selected_series_names selected_years
     in \<lparr>unemployment_chart = unemployment_data fd,
         nonfarm_chart = nonfarm_data fd,
         comparison_chart = merged_data data,
         pie_chart = pie_data data selected_years,
         summary_table = summary fd,
         data_table = fd,
         download = fd\<rparr>)"

subsection \<open>Example tables\<close>

text \<open>
  A small table in the format of \<^verbatim>\<open>BLS_data.csv\<close>, used to evaluate the script. Dates
  are the first of January of 2018, 2019 and 2020. It holds the two unemployment-rate rows
  of the specification's scenario, one row of an id that is not in the catalog, and no
  row of civilian unemployment.
\<close>

definition example_raw :: "observation list" where
  "example_raw =
    [\<lparr>series_id = ''LNS14000000'', date = 1546300800000000000, year = 2019, val = Some 3.6\<rparr>,
     \<lparr>series_id = ''LNS14000000'', date = 1577836800000000000, year = 2020, val = Some 8.06\<rparr>,
     \<lparr>series_id = ''LNS14000000'', date = 1514764800000000000, year = 2018, val = Some 4.1\<rparr>,
     \<lparr>series_id = ''CES0500000002'', date = 1514764800000000000, year = 2018, val = Some 34.4\<rparr>,
     \<lparr>series_id = ''CES0500000003'', date = 1514764800000000000, year = 2018, val = Some 26.7\<rparr>,
     \<lparr>series_id = ''LNS12000000'', date = 1546300800000000000, year = 2019, val = Some 156694\<rparr>,
     \<lparr>series_id = ''XYZ0000000001'', date = 1546300800000000000, year = 2019, val = Some 1\<rparr>,
     \<lparr>series_id = ''CES0000000001'', date = 1546300800000000000, year = 2019, val = Some 5\<rparr>]"

text \<open>A table where the file lists the same month twice for both compared series.\<close>

definition repeated_raw :: "observation list" where
  "repeated_raw =
    [\<lparr>series_id = ''CES0500000002'', date = 1546300800000000000, year = 2019, val = Some 34.5\<rparr>,
     \<lparr>series_id = ''CES0500000002'', date = 1546300800000000000, year = 2019, val = Some 34.5\<rparr>,
     \<lparr>series_id = ''CES0500000003'', date = 1546300800000000000, year = 2019, val = Some 27.5\<rparr>,
     \<lparr>series_id = ''CES0500000003'', date = 1546300800000000000, year = 2019, val = Some 27.5\<rparr>]"

subsection \<open>Export (lines 330--335)\<close>
























section \<open>Properties\<close>

subsection \<open>Series catalog\<close>

lemma distinct_series_ids: "distinct (map fst series_names)"
  by (simp add: series_names_def)

lemma unknown_not_a_name: "''Unknown Series'' \<notin> snd ` set series_names"
  by (simp add: series_names_def)

text \<open>
  Claim C4. A series id that is not a key of the catalog gets the display name
  \<open>Unknown Series\<close>. The lookup has no failing branch: \<^verbatim>\<open>Series.map\<close> with a
  dictionary leaves a missing value where the key is absent, and \<^verbatim>\<open>fillna\<close>
  replaces it, so \<^const>\<open>displayName\<close> is a function into the names.
\<close>

theorem displayName_unknown:
  "i \<notin> set (map fst series_names) \<Longrightarrow> displayName i = ''Unknown Series''"
proof -
  assume "i \<notin> set (map fst series_names)"
  then have "map_of series_names i = None"
    by (simp add: map_of_eq_None_iff)
  then show ?thesis
    by (simp add: displayName_def map_dict_def fillna_def)
qed

theorem displayName_unknown_witness:
  "''XYZ0000000001'' \<notin> set (map fst series_names) \<and>
   displayName ''XYZ0000000001'' = ''Unknown Series''"
proof -
  have h: "''XYZ0000000001'' \<notin> set (map fst series_names)"
    by (simp add: series_names_def)
  from displayName_unknown [OF h] h show ?thesis by simp
qed

subsection \<open>Filter\<close>

text \<open>
  The ids computed at lines 75--77 are the ids of the specification's inverse lookup.
  The dictionary has no key twice, so an item \<open>(i, n)\<close> is the entry of \<open>i\<close>.
\<close>

lemma selected_series_ids_iff:
  "i \<in> set (selected_series_ids S) \<longleftrightarrow> i \<in> idsOf S"
proof -
  have "i \<in> set (selected_series_ids S) \<longleftrightarrow> (\<exists>n. (i, n) \<in> set series_names \<and> n \<in> set S)"
    by (force simp: selected_series_ids_def)
  also have "\<dots> \<longleftrightarrow> (\<exists>n. map_of series_names i = Some n \<and> n \<in> set S)"
    using distinct_series_ids by (auto dest: map_of_SomeD)
  also have "\<dots> \<longleftrightarrow> i \<in> idsOf S"
    by (auto simp: idsOf_def split: option.splits)
  finally show ?thesis .
qed

lemma filtered_data_eq:
  "filtered_data D S R =
    filter (\<lambda>r. series_id r \<in> idsOf S \<and> fst R \<le> year r \<and> year r \<le> snd R) D"
  by (simp add: filtered_data_def isin_def between_def selected_series_ids_iff)

text \<open>
  Claim C1. For every table \<open>D\<close>, selection \<open>S\<close> and range \<open>(lo, hi)\<close>, the filtered
  table is \<open>D\<close> restricted to the rows whose series id has a catalog display name in
  \<open>S\<close> and whose year lies in \<open>[lo, hi]\<close>, both ends included: it keeps those rows in
  their order and with their multiplicity, and its rows are exactly the rows of \<open>D\<close>
  that meet both conditions.
\<close>

theorem filtered_data_exact:
  "filtered_data D S (lo, hi) =
      filter (\<lambda>r. series_id r \<in> idsOf S \<and> lo \<le> year r \<and> year r \<le> hi) D
   \<and> set (filtered_data D S (lo, hi)) =
      {r. r \<in> set D \<and> series_id r \<in> idsOf S \<and> lo \<le> year r \<and> year r \<le> hi}"
  by (auto simp: filtered_data_eq)

text \<open>
  Claim C8. Filtering is idempotent: filtering the filtered table again with the same
  selection and range returns it unchanged.
\<close>

theorem filtered_data_idempotent:
  "filtered_data (filtered_data D S R) S R = filtered_data D S R"
  by (simp add: filtered_data_def)

lemma selected_series_ids_Nil: "selected_series_ids [] = []"
  by (simp add: selected_series_ids_def)

lemma summary_Nil: "summary [] = []"
  by (simp add: summary_def)

text \<open>
  Claim C6. With no display name selected the filtered table is empty, for every table and
  range, and the summary of that empty table has no group. Neither step has a failing
  branch: a mask that is false everywhere selects no row, and grouping no row gives no
  group.
\<close>

theorem empty_selection:
  "filtered_data D [] R = [] \<and> summary (filtered_data D [] R) = []"
  by (simp add: filtered_data_def selected_series_ids_Nil isin_def summary_Nil)

subsection \<open>The example table\<close>

lemma annotate_example_raw:
  "annotate example_raw =
    [\<lparr>series_id = ''LNS14000000'', date = 1546300800000000000, year = 2019, val = Some 3.6,
      series_name = ''Unemployment Rate''\<rparr>,
     \<lparr>series_id = ''LNS14000000'', date = 1577836800000000000, year = 2020, val = Some 8.06,
      series_name = ''Unemployment Rate''\<rparr>,
     \<lparr>series_id = ''LNS14000000'', date = 1514764800000000000, year = 2018, val = Some 4.1,
      series_name = ''Unemployment Rate''\<rparr>,
     \<lparr>series_id = ''CES0500000002'', date = 1514764800000000000, year = 2018, val = Some 34.4,
      series_name = ''Average Weekly Hours of All Employees''\<rparr>,
     \<lparr>series_id = ''CES0500000003'', date = 1514764800000000000, year = 2018, val = Some 26.7,
      series_name = ''Average Hourly Earnings of All Employees''\<rparr>,
     \<lparr>series_id = ''LNS12000000'', date = 1546300800000000000, year = 2019, val = Some 156694,
      series_name = ''Civilian Employment''\<rparr>,
     \<lparr>series_id = ''XYZ0000000001'', date = 1546300800000000000, year = 2019, val = Some 1,
      series_name = ''Unknown Series''\<rparr>,
     \<lparr>series_id = ''CES0000000001'', date = 1546300800000000000, year = 2019, val = Some 5,
      series_name = ''Total Nonfarm Employment''\<rparr>]"
  by (simp add: annotate_def example_raw_def annotate_row_def displayName_def map_dict_def
      fillna_def series_names_def)

lemma selected_ids_rate:
  "selected_series_ids [''Unemployment Rate''] = [''LNS14000000'']"
  by (simp add: selected_series_ids_def series_names_def)

text \<open>
  The scenario of the specification: filtering on the unemployment rate and the years
  2019 to 2020 returns exactly the two rows of those years.
\<close>

lemma filtered_example_rate:
  "filtered_data (annotate example_raw) [''Unemployment Rate''] (2019, 2020) =
    [\<lparr>series_id = ''LNS14000000'', date = 1546300800000000000, year = 2019, val = Some 3.6,
      series_name = ''Unemployment Rate''\<rparr>,
     \<lparr>series_id = ''LNS14000000'', date = 1577836800000000000, year = 2020, val = Some 8.06,
      series_name = ''Unemployment Rate''\<rparr>]"
  by (simp add: filtered_data_def annotate_example_raw selected_ids_rate isin_def between_def)

lemma merged_example:
  "merged_data (annotate example_raw) =
    [\<lparr>on_date = 1514764800000000000, avg_weekly_hours = Some 34.4,
      avg_hourly_earnings = Some 26.7\<rparr>]"
  by (simp add: merged_data_def annotate_example_raw hours_data_def earnings_data_def pd_merge_def)

subsection \<open>Unmapped series\<close>

lemma unmapped_iff_unknown:
  "displayName i = ''Unknown Series'' \<longleftrightarrow> i \<notin> idsOf S \<and> map_of series_names i = None"
proof (cases "map_of series_names i")
  case None
  then show ?thesis
    by (simp add: displayName_def map_dict_def fillna_def idsOf_def)
next
  case (Some n)
  then have "(i, n) \<in> set series_names" by (rule map_of_SomeD)
  then have "n \<in> snd ` set series_names" by force
  with unknown_not_a_name have "n \<noteq> ''Unknown Series''" by blast
  with Some show ?thesis
    by (simp add: displayName_def map_dict_def fillna_def)
qed

lemma selected_ids_unknown: "selected_series_ids [''Unknown Series''] = []"
  by (simp add: selected_series_ids_def series_names_def)

lemma set_unique: "set (unique xs) = set xs"
  by (simp add: unique_def)

text \<open>
  Claim C10. The name \<open>Unknown Series\<close> is the name of no catalog entry, so it maps back
  to no id: a selection of that name alone filters every table to the empty table,
  whatever the range. In the annotated table a row that carries the name is in no
  filtered table, whatever the selection and the range, although the name is among the
  options of the multiselect as soon as one row carries it.
\<close>

theorem unknown_series_unreachable:
  "filtered_data D [''Unknown Series''] R = []
   \<and> (\<forall>r \<in> set (annotate raw). series_name r = ''Unknown Series'' \<longrightarrow>
        ''Unknown Series'' \<in> set (available_options (annotate raw))
        \<and> r \<notin> set (filtered_data (annotate raw) S R'))"
proof -
  have 1: "filtered_data D [''Unknown Series''] R = []"
    by (simp add: filtered_data_def selected_ids_unknown isin_def)
  have 2: "''Unknown Series'' \<in> set (available_options (annotate raw))
        \<and> r \<notin> set (filtered_data (annotate raw) S R')"
    if r: "r \<in> set (annotate raw)" and n: "series_name r = ''Unknown Series''" for r
  proof -
    from r obtain ob where "r = annotate_row ob" by (auto simp: annotate_def)
    then have "series_name r = displayName (series_id r)"
      by (simp add: annotate_row_def)
    with n have "series_id r \<notin> idsOf S"
      using unmapped_iff_unknown [of "series_id r" S] by simp
    then have "r \<notin> set (filtered_data (annotate raw) S R')"
      by (simp add: filtered_data_eq)
    moreover from r n have "''Unknown Series'' \<in> set (available_options (annotate raw))"
      by (force simp: available_options_def set_unique)
    ultimately show ?thesis by simp
  qed
  from 1 2 show ?thesis by blast
qed

theorem unknown_series_unreachable_witness:
  "\<lparr>series_id = ''XYZ0000000001'', date = 1546300800000000000, year = 2019, val = Some 1,
      series_name = ''Unknown Series''\<rparr> \<in> set (annotate example_raw)
   \<and> ''Unknown Series'' \<in> set (available_options (annotate example_raw))
   \<and> \<lparr>series_id = ''XYZ0000000001'', date = 1546300800000000000, year = 2019, val = Some 1,
      series_name = ''Unknown Series''\<rparr>
      \<notin> set (filtered_data (annotate example_raw) [''Unknown Series''] (2019, 2019))
   \<and> filtered_data (annotate example_raw) [''Unknown Series''] (2019, 2019) = []"
proof -
  let ?r = "\<lparr>series_id = ''XYZ0000000001'', date = 1546300800000000000, year = 2019,
      val = Some 1, series_name = ''Unknown Series''\<rparr>"
  have m: "?r \<in> set (annotate example_raw)"
    by (simp add: annotate_example_raw)
  have n: "series_name ?r = ''Unknown Series''" by simp
  from unknown_series_unreachable
    [of "annotate example_raw" "(2019, 2019)" example_raw "[''Unknown Series'']" "(2019, 2019)"]
    m n
  show ?thesis by blast
qed

subsection \<open>Inner join\<close>

lemma length_pd_merge_Cons:
  "length (pd_merge (l # left) right) =
    length (filter (\<lambda>r. fst r = fst l) right) + length (pd_merge left right)"
  by (simp add: pd_merge_def)

lemma pd_merge_dates: "on_date ` set (pd_merge left right) = fst ` set left \<inter> fst ` set right"
  by (force simp: pd_merge_def)

lemma pd_merge_length_prod: "length (pd_merge left right) \<le> length left * length right"
proof (induction left)
  case Nil
  show ?case by (simp add: pd_merge_def)
next
  case (Cons l left)
  have "length (filter (\<lambda>r. fst r = fst l) right) \<le> length right" by simp
  with Cons.IH have "length (filter (\<lambda>r. fst r = fst l) right) + length (pd_merge left right)
      \<le> length right + length left * length right"
    by linarith
  then show ?case by (simp add: length_pd_merge_Cons)
qed

text \<open>Right rows of a date that no left row has do not contribute.\<close>

lemma pd_merge_drop_unmatched:
  "d \<notin> fst ` set left \<Longrightarrow> pd_merge left (filter (\<lambda>r. fst r \<noteq> d) right) = pd_merge left right"
proof (induction left)
  case Nil
  show ?case by (simp add: pd_merge_def)
next
  case (Cons l left)
  then have ne: "fst l \<noteq> d" and rest: "d \<notin> fst ` set left" by auto
  have "filter (\<lambda>r. fst r = fst l) (filter (\<lambda>r. fst r \<noteq> d) right) = filter (\<lambda>r. fst r = fst l) right"
    using ne by (auto intro: filter_cong)
  with Cons.IH [OF rest] show ?case by (simp add: pd_merge_def)
qed

lemma pd_merge_length_right:
  "distinct (map fst left) \<Longrightarrow> length (pd_merge left right) \<le> length right"
proof (induction left arbitrary: right)
  case Nil
  show ?case by (simp add: pd_merge_def)
next
  case (Cons l left)
  then have fresh: "fst l \<notin> fst ` set left" and d: "distinct (map fst left)" by auto
  have "length (pd_merge left right) = length (pd_merge left (filter (\<lambda>r. fst r \<noteq> fst l) right))"
    using pd_merge_drop_unmatched [OF fresh] by simp
  also have "\<dots> \<le> length (filter (\<lambda>r. fst r \<noteq> fst l) right)"
    by (rule Cons.IH [OF d])
  finally have "length (pd_merge (l # left) right) \<le>
      length (filter (\<lambda>r. fst r = fst l) right) + length (filter (\<lambda>r. \<not> fst r = fst l) right)"
    by (simp add: length_pd_merge_Cons)
  then show ?case by (simp add: sum_length_filter_compl)
qed

lemma distinct_matches_le_1:
  "distinct (map fst right) \<Longrightarrow> length (filter (\<lambda>r. fst r = d) right) \<le> 1"
  by (induction right) (auto simp: filter_empty_conv image_iff)

lemma pd_merge_length_left:
  "distinct (map fst right) \<Longrightarrow> length (pd_merge left right) \<le> length left"
proof (induction left)
  case Nil
  show ?case by (simp add: pd_merge_def)
next
  case (Cons l left)
  from distinct_matches_le_1 [OF Cons.prems, of "fst l"] Cons.IH [OF Cons.prems]
  show ?case by (simp add: length_pd_merge_Cons)
qed

lemma merged_repeated:
  "length (merged_data (annotate repeated_raw)) = 4
   \<and> length (hours_data (annotate repeated_raw)) = 2
   \<and> length (earnings_data (annotate repeated_raw)) = 2"
  by (simp add: merged_data_def annotate_def repeated_raw_def annotate_row_def hours_data_def
      earnings_data_def pd_merge_def)

text \<open>
  Claim C3, as stated, fails: the claim bounds the row count of the comparison table by
  the smaller slice for every table. When the file lists one month twice for both
  series, the inner join pairs each of the two rows of hours with each of the two rows of
  earnings: four rows from slices of two rows each.
\<close>

theorem merged_data_count_counterexample:
  "\<not> length (merged_data (annotate repeated_raw))
      \<le> min (length (hours_data (annotate repeated_raw)))
            (length (earnings_data (annotate repeated_raw)))"
  by (simp add: merged_repeated)

text \<open>
  Claim C3, amended. For every table the dates of the comparison table are exactly the
  dates present in both slices (a date of only one slice is dropped); its row count is
  at most the product of the two slice sizes, and at most the smaller of the two slice
  sizes when no date occurs twice within either slice.
\<close>

theorem merged_data_inner_join:
  "on_date ` set (merged_data D) = date ` set (hours_data D) \<inter> date ` set (earnings_data D)
   \<and> length (merged_data D) \<le> length (hours_data D) * length (earnings_data D)
   \<and> (distinct (map date (hours_data D)) \<and> distinct (map date (earnings_data D)) \<longrightarrow>
        length (merged_data D) \<le> min (length (hours_data D)) (length (earnings_data D)))"
proof -
  let ?A = "map (\<lambda>r. (date r, val r)) (hours_data D)"
  let ?B = "map (\<lambda>r. (date r, val r)) (earnings_data D)"
  have fA: "map fst ?A = map date (hours_data D)" and fB: "map fst ?B = map date (earnings_data D)"
    by (simp_all add: comp_def)
  have sA: "fst ` set ?A = date ` set (hours_data D)" and sB: "fst ` set ?B = date ` set (earnings_data D)"
    by (simp_all add: image_image)
  have 1: "on_date ` set (merged_data D) = date ` set (hours_data D) \<inter> date ` set (earnings_data D)"
    unfolding merged_data_def pd_merge_dates sA sB ..
  have 2: "length (merged_data D) \<le> length (hours_data D) * length (earnings_data D)"
    using pd_merge_length_prod [of ?A ?B] by (simp add: merged_data_def)
  have 3: "length (merged_data D) \<le> length (earnings_data D)" if "distinct (map date (hours_data D))"
  proof -
    from that have "distinct (map fst ?A)" by (simp only: fA)
    from pd_merge_length_right [OF this, of ?B] show ?thesis by (simp add: merged_data_def)
  qed
  have 4: "length (merged_data D) \<le> length (hours_data D)" if "distinct (map date (earnings_data D))"
  proof -
    from that have "distinct (map fst ?B)" by (simp only: fB)
    from pd_merge_length_left [OF this, of ?A] show ?thesis by (simp add: merged_data_def)
  qed
  from 1 2 3 4 show ?thesis by simp
qed

lemma slices_example:
  "map date (hours_data (annotate example_raw)) = [1514764800000000000]
   \<and> map date (earnings_data (annotate example_raw)) = [1514764800000000000]"
  by (simp add: annotate_example_raw hours_data_def earnings_data_def)

theorem merged_data_inner_join_witness:
  "distinct (map date (hours_data (annotate example_raw)))
   \<and> distinct (map date (earnings_data (annotate example_raw)))
   \<and> length (merged_data (annotate example_raw))
       \<le> min (length (hours_data (annotate example_raw)))
             (length (earnings_data (annotate example_raw)))
   \<and> length (merged_data (annotate example_raw)) = 1"
proof -
  have d: "distinct (map date (hours_data (annotate example_raw)))
      \<and> distinct (map date (earnings_data (annotate example_raw)))"
    by (simp add: slices_example)
  have n: "length (merged_data (annotate example_raw)) = 1"
    by (simp add: merged_example)
  from merged_data_inner_join [of "annotate example_raw"] d n show ?thesis by blast
qed

subsection \<open>Totals of the pie chart\<close>

lemma pd_sum_Nil: "pd_sum [] = 0"
  by (simp add: pd_sum_def dropna_def List.map_filter_simps)

text \<open>
  Claim C5. For every table and range, each total of the pie chart is the sum of the
  values present in the \<^verbatim>\<open>value\<close> column over the rows of its series whose year lies in
  the range, and the total of a slice without rows is \<open>0\<close>. The sum has no failing branch
  and its result is a number.
\<close>

theorem totals_by_category:
  "employment_total D (lo, hi) =
      sum_list (dropna (map val
        (filter (\<lambda>r. series_id r = ''LNS12000000'' \<and> lo \<le> year r \<and> year r \<le> hi) D)))
   \<and> unemployment_total D (lo, hi) =
      sum_list (dropna (map val
        (filter (\<lambda>r. series_id r = ''LNS13000000'' \<and> lo \<le> year r \<and> year r \<le> hi) D)))
   \<and> (filtered_employment D (lo, hi) = [] \<longrightarrow> employment_total D (lo, hi) = 0)
   \<and> (filtered_unemployment D (lo, hi) = [] \<longrightarrow> unemployment_total D (lo, hi) = 0)
   \<and> pie_data D (lo, hi) =
      [(''Employment'', employment_total D (lo, hi)),
       (''Unemployment'', unemployment_total D (lo, hi))]"
  by (simp add: employment_total_def unemployment_total_def filtered_employment_def
      filtered_unemployment_def between_def pd_sum_def pd_sum_Nil [unfolded pd_sum_def]
      pie_data_def)

lemma filtered_unemployment_example:
  "filtered_unemployment (annotate example_raw) (2019, 2020) = []"
  by (simp add: filtered_unemployment_def annotate_example_raw between_def)

lemma employment_rows_example:
  "dropna (map val (filter (\<lambda>r. series_id r = ''LNS12000000'' \<and> 2019 \<le> year r \<and> year r \<le> 2020)
      (annotate example_raw))) = [156694]"
  by (simp add: annotate_example_raw dropna_def List.map_filter_simps)

theorem totals_by_category_witness:
  "filtered_unemployment (annotate example_raw) (2019, 2020) = []
   \<and> unemployment_total (annotate example_raw) (2019, 2020) = 0
   \<and> employment_total (annotate example_raw) (2019, 2020) = 156694"
proof -
  note t = totals_by_category [of "annotate example_raw" 2019 2020]
  from t have e: "employment_total (annotate example_raw) (2019, 2020) = 156694"
    by (simp only: employment_rows_example) simp
  from t filtered_unemployment_example
  have u: "unemployment_total (annotate example_raw) (2019, 2020) = 0" by blast
  from e u filtered_unemployment_example show ?thesis by simp
qed

subsection \<open>Summary statistics\<close>

lemma describe_single:
  "describe [Some v] =
    \<lparr>count = 1, mean = Some v, std = None, minimum = Some v,
     p25 = Some v, p50 = Some v, p75 = Some v, maximum = Some v\<rparr>"
  by (simp add: describe_def dropna_def List.map_filter_simps pd_mean_def pd_std_def
      pd_min_def pd_max_def pd_quantile_def)

lemma summary_lookup:
  "map_of (summary fv) g =
    (if g \<in> series_name ` set fv
     then Some (describe (map val (filter (\<lambda>r. series_name r = g) fv))) else None)"
  by (simp add: summary_def map_of_map_restrict restrict_map_def)

lemma summary_keys: "set (map fst (summary fv)) = series_name ` set fv"
  by (simp add: summary_def comp_def)

lemma summary_distinct: "distinct (map fst (summary fv))"
  by (simp add: summary_def comp_def)

lemma dropna_eq: "dropna cs = map the (filter (\<lambda>c. c \<noteq> None) cs)"
  by (induction cs) (auto simp: dropna_def List.map_filter_simps split: option.splits)

text \<open>The value at a real position of a sorted list, between its two neighbours.\<close>

lemma interpolation_between:
  fixes s :: "real list"
  assumes "sorted s" and "0 \<le> t" and "t \<le> real (length s - 1)" and "s \<noteq> []"
  shows "s ! nat \<lfloor>t\<rfloor> \<le> s ! nat \<lfloor>t\<rfloor> + (s ! nat \<lceil>t\<rceil> - s ! nat \<lfloor>t\<rfloor>) * (t - real (nat \<lfloor>t\<rfloor>))"
    and "s ! nat \<lfloor>t\<rfloor> + (s ! nat \<lceil>t\<rceil> - s ! nat \<lfloor>t\<rfloor>) * (t - real (nat \<lfloor>t\<rfloor>)) \<le> s ! nat \<lceil>t\<rceil>"
    and "nat \<lfloor>t\<rfloor> < length s" and "nat \<lceil>t\<rceil> < length s"
proof -
  let ?i = "nat \<lfloor>t\<rfloor>" and ?j = "nat \<lceil>t\<rceil>"
  have len: "0 < length s" using assms(4) by simp
  have "\<lceil>t\<rceil> \<le> int (length s - 1)" using assms(3) by (simp add: ceiling_le_iff)
  then show j: "?j < length s" using len by linarith
  have ij: "?i \<le> ?j" by (simp add: nat_mono floor_le_ceiling)
  with j show i: "?i < length s" by simp
  have fr0: "0 \<le> t - real ?i" using assms(2) by (simp add: of_nat_nat)
  have fr1: "t - real ?i \<le> 1" using assms(2) by (simp add: of_nat_nat) linarith
  have d: "0 \<le> s ! ?j - s ! ?i" using sorted_nth_mono [OF assms(1) ij j] by simp
  show "s ! ?i \<le> s ! ?i + (s ! ?j - s ! ?i) * (t - real ?i)"
    using d fr0 by simp
  have "(s ! ?j - s ! ?i) * (t - real ?i) \<le> (s ! ?j - s ! ?i) * 1"
    using d fr1 by (rule mult_left_mono [rotated])
  then show "s ! ?i + (s ! ?j - s ! ?i) * (t - real ?i) \<le> s ! ?j" by simp
qed

lemma interpolation_mono:
  fixes s :: "real list"
  assumes s: "sorted s" and t0: "0 \<le> t" and tu: "t \<le> u" and u1: "u \<le> real (length s - 1)"
    and ne: "s \<noteq> []"
  shows "s ! nat \<lfloor>t\<rfloor> + (s ! nat \<lceil>t\<rceil> - s ! nat \<lfloor>t\<rfloor>) * (t - real (nat \<lfloor>t\<rfloor>))
      \<le> s ! nat \<lfloor>u\<rfloor> + (s ! nat \<lceil>u\<rceil> - s ! nat \<lfloor>u\<rfloor>) * (u - real (nat \<lfloor>u\<rfloor>))"
proof -
  have t1: "t \<le> real (length s - 1)" and u0: "0 \<le> u" using tu u1 t0 by simp_all
  note bt = interpolation_between [OF s t0 t1 ne]
  note bu = interpolation_between [OF s u0 u1 ne]
  show ?thesis
  proof (cases "\<lceil>t\<rceil> \<le> \<lfloor>u\<rfloor>")
    case True
    then have "nat \<lceil>t\<rceil> \<le> nat \<lfloor>u\<rfloor>" by (rule nat_mono)
    from sorted_nth_mono [OF s this bu(3)] bt(2) bu(1) show ?thesis by linarith
  next
    case False
    then have lt: "\<lfloor>u\<rfloor> < \<lceil>t\<rceil>" by simp
    have "\<lfloor>t\<rfloor> \<le> \<lfloor>u\<rfloor>" using tu by (rule floor_mono)
    moreover have "\<lceil>t\<rceil> \<le> \<lceil>u\<rceil>" using tu by (rule ceiling_mono)
    moreover have "\<lceil>t\<rceil> - \<lfloor>t\<rfloor> \<le> 1" by (rule ceiling_diff_floor_le_1)
    moreover have "\<lceil>u\<rceil> - \<lfloor>u\<rfloor> \<le> 1" by (rule ceiling_diff_floor_le_1)
    ultimately have f: "\<lfloor>u\<rfloor> = \<lfloor>t\<rfloor>" and c: "\<lceil>u\<rceil> = \<lceil>t\<rceil>" using lt by linarith+
    have ij: "nat \<lfloor>t\<rfloor> \<le> nat \<lceil>t\<rceil>" by (simp add: nat_mono floor_le_ceiling)
    have d: "0 \<le> s ! nat \<lceil>t\<rceil> - s ! nat \<lfloor>t\<rfloor>" using sorted_nth_mono [OF s ij bt(4)] by simp
    have "(s ! nat \<lceil>t\<rceil> - s ! nat \<lfloor>t\<rfloor>) * (t - real (nat \<lfloor>t\<rfloor>))
        \<le> (s ! nat \<lceil>t\<rceil> - s ! nat \<lfloor>t\<rfloor>) * (u - real (nat \<lfloor>t\<rfloor>))"
      using d tu by (intro mult_left_mono) simp_all
    then show ?thesis by (simp add: f c)
  qed
qed

lemma sum_list_lower: "(\<And>x. x \<in> set xs \<Longrightarrow> a \<le> x) \<Longrightarrow> a * real (length xs) \<le> sum_list xs"
  by (induction xs) (auto simp: algebra_simps intro: add_mono)

lemma sum_list_upper: "(\<And>x. x \<in> set xs \<Longrightarrow> x \<le> b) \<Longrightarrow> sum_list xs \<le> b * real (length xs)"
  by (induction xs) (auto simp: algebra_simps intro: add_mono)

lemma mean_between:
  fixes xs :: "real list"
  assumes "xs \<noteq> []"
  shows "Min (set xs) \<le> sum_list xs / real (length xs)"
    and "sum_list xs / real (length xs) \<le> Max (set xs)"
proof -
  have n: "0 < real (length xs)" using assms by simp
  have "Min (set xs) * real (length xs) \<le> sum_list xs"
    by (rule sum_list_lower) simp
  then show "Min (set xs) \<le> sum_list xs / real (length xs)"
    using n by (simp add: pos_le_divide_eq)
  have "sum_list xs \<le> Max (set xs) * real (length xs)"
    by (rule sum_list_upper) simp
  then show "sum_list xs / real (length xs) \<le> Max (set xs)"
    using n by (simp add: pos_divide_le_eq)
qed

lemma describe_explicit:
  "describe cs =
    (let xs = map the (filter (\<lambda>c. c \<noteq> None) cs); n = length xs; m = sum_list xs / real n
     in \<lparr>count = n,
         mean = (if n = 0 then None else Some m),
         std = (if n \<le> 1 then None
                else Some (sqrt (sum_list (map (\<lambda>x. (x - m)\<^sup>2) xs) / real (n - 1)))),
         minimum = (if n = 0 then None else Some (Min (set xs))),
         p25 = pd_quantile xs (1 / 4), p50 = pd_quantile xs (1 / 2),
         p75 = pd_quantile xs (3 / 4),
         maximum = (if n = 0 then None else Some (Max (set xs)))\<rparr>)"
  by (simp add: describe_def dropna_eq Let_def pd_mean_def pd_std_def pd_min_def pd_max_def)

lemma sorted_summary: "sorted (map fst (summary fv))"
  by (simp add: summary_def comp_def)

text \<open>
  Claim C7. The summary has one entry for each display name that occurs in the filtered
  view and none for any other name, so a group without rows is absent; the entries are
  in sorted order of the names. The entry of a name holds the statistics of the values
  present in the \<^verbatim>\<open>value\<close> cells of the rows with that name, \<open>n\<close> values with mean
  \<open>m\<close>: the count \<open>n\<close>; the mean; the sample standard deviation, the square root of the
  sum of the squared deviations from \<open>m\<close> over \<open>n - 1\<close>, undefined below two values; the
  minimum and the maximum; and the three quartiles, read off the sorted values at the
  positions \<open>(n - 1) / 4\<close>, \<open>(n - 1) / 2\<close> and \<open>3 (n - 1) / 4\<close> with linear
  interpolation between neighbours. With no value present the count is \<open>0\<close> and every
  other statistic is undefined. Whenever a value is present, the mean lies between the
  minimum and the maximum, and minimum, first quartile, median, third quartile and
  maximum are in ascending order. For a group of exactly one row with value \<open>5.0\<close> the
  count is \<open>1\<close>, the mean, minimum, quartiles and maximum are \<open>5.0\<close>, and the standard
  deviation is undefined.
\<close>

theorem summary_statistics:
  fixes fv :: "row list" and g :: string
  defines "xs \<equiv> map the (filter (\<lambda>c. c \<noteq> None) (map val (filter (\<lambda>r. series_name r = g) fv)))"
  defines "n \<equiv> length xs"
  defines "m \<equiv> sum_list xs / real n"
  defines "quart \<equiv> \<lambda>q. sort xs ! nat \<lfloor>q * real (n - 1)\<rfloor>
      + (sort xs ! nat \<lceil>q * real (n - 1)\<rceil> - sort xs ! nat \<lfloor>q * real (n - 1)\<rfloor>)
        * (q * real (n - 1) - real (nat \<lfloor>q * real (n - 1)\<rfloor>))"
  shows
  "set (map fst (summary fv)) = series_name ` set fv
   \<and> distinct (map fst (summary fv))
   \<and> sorted (map fst (summary fv))
   \<and> (g \<notin> series_name ` set fv \<longrightarrow> map_of (summary fv) g = None)
   \<and> (g \<in> series_name ` set fv \<longrightarrow>
       map_of (summary fv) g =
         Some \<lparr>count = n,
               mean = (if n = 0 then None else Some m),
               std = (if n \<le> 1 then None
                      else Some (sqrt (sum_list (map (\<lambda>x. (x - m)\<^sup>2) xs) / real (n - 1)))),
               minimum = (if n = 0 then None else Some (Min (set xs))),
               p25 = (if n = 0 then None else Some (quart (1 / 4))),
               p50 = (if n = 0 then None else Some (quart (1 / 2))),
               p75 = (if n = 0 then None else Some (quart (3 / 4))),
               maximum = (if n = 0 then None else Some (Max (set xs)))\<rparr>)
   \<and> (0 < n \<longrightarrow>
       Min (set xs) \<le> m \<and> m \<le> Max (set xs)
       \<and> Min (set xs) \<le> quart (1 / 4) \<and> quart (1 / 4) \<le> quart (1 / 2)
       \<and> quart (1 / 2) \<le> quart (3 / 4) \<and> quart (3 / 4) \<le> Max (set xs))
   \<and> (filter (\<lambda>r. series_name r = g) fv = [r] \<and> val r = Some 5 \<longrightarrow>
       map_of (summary fv) g =
         Some \<lparr>count = 1, mean = Some 5, std = None, minimum = Some 5,
               p25 = Some 5, p50 = Some 5, p75 = Some 5, maximum = Some 5\<rparr>)"
proof -
  have single: "map_of (summary fv) g =
         Some \<lparr>count = 1, mean = Some 5, std = None, minimum = Some 5,
               p25 = Some 5, p50 = Some 5, p75 = Some 5, maximum = Some 5\<rparr>"
    if f: "filter (\<lambda>r. series_name r = g) fv = [r]" and v: "val r = Some 5"
  proof -
    have "r \<in> set (filter (\<lambda>r. series_name r = g) fv)" using f by simp
    then have "g \<in> series_name ` set fv" by auto
    then show ?thesis using f v by (simp add: summary_lookup describe_single)
  qed
  have absent: "map_of (summary fv) g = None" if "g \<notin> series_name ` set fv"
    using that by (simp add: summary_lookup)
  have q: "pd_quantile xs p = (if n = 0 then None else Some (quart p))" for p
    by (simp add: pd_quantile_def n_def quart_def Let_def)
  have present: "map_of (summary fv) g =
         Some \<lparr>count = n,
               mean = (if n = 0 then None else Some m),
               std = (if n \<le> 1 then None
                      else Some (sqrt (sum_list (map (\<lambda>x. (x - m)\<^sup>2) xs) / real (n - 1)))),
               minimum = (if n = 0 then None else Some (Min (set xs))),
               p25 = (if n = 0 then None else Some (quart (1 / 4))),
               p50 = (if n = 0 then None else Some (quart (1 / 2))),
               p75 = (if n = 0 then None else Some (quart (3 / 4))),
               maximum = (if n = 0 then None else Some (Max (set xs)))\<rparr>"
    if "g \<in> series_name ` set fv"
  proof -
    have "map_of (summary fv) g = Some (describe (map val (filter (\<lambda>r. series_name r = g) fv)))"
      using that by (simp add: summary_lookup)
    also have "describe (map val (filter (\<lambda>r. series_name r = g) fv)) =
        \<lparr>count = n,
         mean = (if n = 0 then None else Some m),
         std = (if n \<le> 1 then None
                else Some (sqrt (sum_list (map (\<lambda>x. (x - m)\<^sup>2) xs) / real (n - 1)))),
         minimum = (if n = 0 then None else Some (Min (set xs))),
         p25 = pd_quantile xs (1 / 4), p50 = pd_quantile xs (1 / 2),
         p75 = pd_quantile xs (3 / 4),
         maximum = (if n = 0 then None else Some (Max (set xs)))\<rparr>"
      unfolding describe_explicit Let_def xs_def [symmetric] n_def [symmetric] m_def [symmetric] ..
    finally show ?thesis by (simp only: q)
  qed
  have order: "Min (set xs) \<le> m \<and> m \<le> Max (set xs)
       \<and> Min (set xs) \<le> quart (1 / 4) \<and> quart (1 / 4) \<le> quart (1 / 2)
       \<and> quart (1 / 2) \<le> quart (3 / 4) \<and> quart (3 / 4) \<le> Max (set xs)" if "0 < n"
  proof -
    from that have ne: "xs \<noteq> []" by (auto simp: n_def)
    then have "length (sort xs) \<noteq> 0" by simp
    then have sne: "sort xs \<noteq> []" by (simp only: length_0_conv) simp
    have len: "length (sort xs) = n" by (simp add: n_def)
    have s: "sorted (sort xs)" by simp
    have pos: "0 \<le> real (n - 1)" by simp
    have b1: "(1 / 4) * real (n - 1) \<le> (1 / 2) * real (n - 1)"
      and b2: "(1 / 2) * real (n - 1) \<le> (3 / 4) * real (n - 1)"
      and b3: "(3 / 4) * real (n - 1) \<le> real (length (sort xs) - 1)"
      and b0: "0 \<le> (1 / 4) * real (n - 1)"
      using pos by (simp_all add: n_def)
    have b3': "(1 / 2) * real (n - 1) \<le> real (length (sort xs) - 1)" using b2 b3 by linarith
    have b0': "0 \<le> (1 / 2) * real (n - 1)" "0 \<le> (3 / 4) * real (n - 1)" using pos by simp_all
    have b1': "(1 / 4) * real (n - 1) \<le> real (length (sort xs) - 1)" using b1 b3' by linarith
    have m12: "quart (1 / 4) \<le> quart (1 / 2)"
      unfolding quart_def by (rule interpolation_mono [OF s b0 b1 b3' sne])
    have m23: "quart (1 / 2) \<le> quart (3 / 4)"
      unfolding quart_def by (rule interpolation_mono [OF s b0'(1) b2 b3 sne])
    note lo = interpolation_between [OF s b0 b1' sne]
    note hi = interpolation_between [OF s b0'(2) b3 sne]
    have "sort xs ! nat \<lfloor>(1 / 4) * real (n - 1)\<rfloor> \<in> set xs"
      using nth_mem [OF lo(3)] by simp
    then have "Min (set xs) \<le> sort xs ! nat \<lfloor>(1 / 4) * real (n - 1)\<rfloor>" by simp
    with lo(1) have l: "Min (set xs) \<le> quart (1 / 4)" unfolding quart_def by linarith
    have "sort xs ! nat \<lceil>(3 / 4) * real (n - 1)\<rceil> \<in> set xs"
      using nth_mem [OF hi(4)] by simp
    then have "sort xs ! nat \<lceil>(3 / 4) * real (n - 1)\<rceil> \<le> Max (set xs)" by simp
    with hi(2) have h: "quart (3 / 4) \<le> Max (set xs)" unfolding quart_def by linarith
    from mean_between [OF ne] have "Min (set xs) \<le> m" "m \<le> Max (set xs)"
      by (simp_all add: m_def n_def)
    with l h m12 m23 show ?thesis by simp
  qed
  from single absent present order summary_keys summary_distinct sorted_summary
  show ?thesis by blast
qed

lemma filtered_example_two:
  "filtered_data (annotate example_raw) [''Unemployment Rate'', ''Total Nonfarm Employment'']
      (2019, 2020) =
    [\<lparr>series_id = ''LNS14000000'', date = 1546300800000000000, year = 2019, val = Some 3.6,
      series_name = ''Unemployment Rate''\<rparr>,
     \<lparr>series_id = ''LNS14000000'', date = 1577836800000000000, year = 2020, val = Some 8.06,
      series_name = ''Unemployment Rate''\<rparr>,
     \<lparr>series_id = ''CES0000000001'', date = 1546300800000000000, year = 2019, val = Some 5,
      series_name = ''Total Nonfarm Employment''\<rparr>]"
  by (simp add: filtered_data_def annotate_example_raw selected_series_ids_def series_names_def
      isin_def between_def)

theorem summary_statistics_witness:
  "map_of (summary (filtered_data (annotate example_raw)
        [''Unemployment Rate'', ''Total Nonfarm Employment''] (2019, 2020)))
        ''Unemployment Rate'' =
       Some \<lparr>count = 2, mean = Some 5.83, std = Some (sqrt 9.9458), minimum = Some 3.6,
             p25 = Some 4.715, p50 = Some 5.83, p75 = Some 6.945, maximum = Some 8.06\<rparr>
   \<and> map_of (summary (filtered_data (annotate example_raw)
        [''Unemployment Rate'', ''Total Nonfarm Employment''] (2019, 2020)))
        ''Total Nonfarm Employment'' =
       Some \<lparr>count = 1, mean = Some 5, std = None, minimum = Some 5,
             p25 = Some 5, p50 = Some 5, p75 = Some 5, maximum = Some 5\<rparr>
   \<and> map_of (summary (filtered_data (annotate example_raw)
        [''Unemployment Rate'', ''Total Nonfarm Employment''] (2019, 2020)))
        ''Civilian Employment'' = None"
proof -
  let ?fv = "filtered_data (annotate example_raw)
        [''Unemployment Rate'', ''Total Nonfarm Employment''] (2019, 2020)"
  let ?r = "\<lparr>series_id = ''CES0000000001'', date = 1546300800000000000, year = 2019,
       val = Some 5, series_name = ''Total Nonfarm Employment''\<rparr>"
  have f: "filter (\<lambda>r. series_name r = ''Total Nonfarm Employment'') ?fv = [?r]"
    by (simp add: filtered_example_two)
  have v: "val ?r = Some 5" by simp
  have a: "''Civilian Employment'' \<notin> series_name ` set ?fv"
    by (simp add: filtered_example_two)
  have u: "''Unemployment Rate'' \<in> series_name ` set ?fv"
    by (simp add: filtered_example_two)
  have xs: "map the (filter (\<lambda>c. c \<noteq> None)
      (map val (filter (\<lambda>r. series_name r = ''Unemployment Rate'') ?fv))) = [3.6, 8.06]"
    by (simp add: filtered_example_two del: not_None_eq)
  from summary_statistics [where fv = ?fv and g = "''Total Nonfarm Employment''" and r = ?r] f v
  have 1: "map_of (summary ?fv) ''Total Nonfarm Employment'' =
       Some \<lparr>count = 1, mean = Some 5, std = None, minimum = Some 5,
             p25 = Some 5, p50 = Some 5, p75 = Some 5, maximum = Some 5\<rparr>"
    by blast
  from summary_statistics [where fv = ?fv and g = "''Civilian Employment''"] a
  have 2: "map_of (summary ?fv) ''Civilian Employment'' = None"
    by blast
  from summary_statistics [where fv = ?fv and g = "''Unemployment Rate''"] u
  have 3: "map_of (summary ?fv) ''Unemployment Rate'' =
       Some \<lparr>count = 2, mean = Some 5.83, std = Some (sqrt 9.9458), minimum = Some 3.6,
             p25 = Some 4.715, p50 = Some 5.83, p75 = Some 6.945, maximum = Some 8.06\<rparr>"
    unfolding xs by (simp add: power2_eq_square)
  from 1 2 3 show ?thesis by simp
qed

subsection \<open>What each view is computed from\<close>

lemma comparison_chart_example:
  "comparison_chart (dashboard example_raw [''Unemployment Rate''] (2019, 2020)) =
     [\<lparr>on_date = 1514764800000000000, avg_weekly_hours = Some 34.4,
       avg_hourly_earnings = Some 26.7\<rparr>]"
  by (simp add: dashboard_def Let_def merged_example)

lemma merged_filtered_example:
  "merged_data (filtered_data (annotate example_raw) [''Unemployment Rate''] (2019, 2020)) = []"
  by (simp add: filtered_example_rate merged_data_def hours_data_def earnings_data_def
      pd_merge_def)

text \<open>
  Claim C2, as stated, fails: the comparison table of weekly hours and hourly earnings is
  not built from the filtered rows. In the example table both compared series have a row
  of 2018 only; with the unemployment rate selected and the years 2019 to 2020 the
  filtered view holds no row of either series, so a table built from it would be empty,
  and the script's comparison table has the row of 2018.
\<close>

theorem comparison_chart_counterexample:
  "comparison_chart (dashboard example_raw [''Unemployment Rate''] (2019, 2020)) \<noteq>
     merged_data (filtered_data (annotate example_raw) [''Unemployment Rate''] (2019, 2020))"
  by (simp add: comparison_chart_example merged_filtered_example)

lemma annotated_name:
  "r \<in> set (annotate raw) \<Longrightarrow> series_name r = displayName (series_id r)"
  by (auto simp: annotate_def annotate_row_def)

lemma displayName_selected:
  "i \<in> idsOf S \<Longrightarrow> displayName i \<in> set S"
  by (auto simp: idsOf_def displayName_def map_dict_def fillna_def split: option.splits)

text \<open>
  Claim C2, amended. In every run the two line charts, the summary statistics, the data
  table and the download are computed from the filtered view, so every row they show
  meets the selection and the year range and every group of the summary is a selected
  name. The comparison table of weekly hours and hourly earnings is computed from the
  whole annotated table: it is the same for every selection and every range. The totals
  of the pie chart are computed from the whole annotated table restricted to the year
  range: they are the same for every selection.
\<close>

theorem dashboard_inputs:
  "unemployment_chart (dashboard raw S (lo, hi)) =
      unemployment_data (filtered_data (annotate raw) S (lo, hi))
   \<and> nonfarm_chart (dashboard raw S (lo, hi)) =
      nonfarm_data (filtered_data (annotate raw) S (lo, hi))
   \<and> summary_table (dashboard raw S (lo, hi)) = summary (filtered_data (annotate raw) S (lo, hi))
   \<and> data_table (dashboard raw S (lo, hi)) = filtered_data (annotate raw) S (lo, hi)
   \<and> download (dashboard raw S (lo, hi)) = filtered_data (annotate raw) S (lo, hi)
   \<and> (\<forall>r \<in> set (unemployment_chart (dashboard raw S (lo, hi)))
            \<union> set (nonfarm_chart (dashboard raw S (lo, hi)))
            \<union> set (data_table (dashboard raw S (lo, hi)))
            \<union> set (download (dashboard raw S (lo, hi))).
        r \<in> set (annotate raw) \<and> series_id r \<in> idsOf S \<and> lo \<le> year r \<and> year r \<le> hi)
   \<and> set (map fst (summary_table (dashboard raw S (lo, hi)))) \<subseteq> set S
   \<and> comparison_chart (dashboard raw S (lo, hi)) = merged_data (annotate raw)
   \<and> comparison_chart (dashboard raw S (lo, hi)) = comparison_chart (dashboard raw S' R')
   \<and> pie_chart (dashboard raw S (lo, hi)) = pie_data (annotate raw) (lo, hi)
   \<and> pie_chart (dashboard raw S (lo, hi)) = pie_chart (dashboard raw S' (lo, hi))"
proof -
  let ?fd = "filtered_data (annotate raw) S (lo, hi)"
  have rows: "r \<in> set (annotate raw) \<and> series_id r \<in> idsOf S \<and> lo \<le> year r \<and> year r \<le> hi"
    if "r \<in> set ?fd" for r
    using that by (simp add: filtered_data_eq)
  have u: "set (unemployment_data ?fd) \<subseteq> set ?fd" and n: "set (nonfarm_data ?fd) \<subseteq> set ?fd"
    by (auto simp: unemployment_data_def nonfarm_data_def)
  have views: "\<forall>r \<in> set (unemployment_data ?fd) \<union> set (nonfarm_data ?fd) \<union> set ?fd \<union> set ?fd.
      r \<in> set (annotate raw) \<and> series_id r \<in> idsOf S \<and> lo \<le> year r \<and> year r \<le> hi"
    using rows u n by blast
  have groups: "set (map fst (summary ?fd)) \<subseteq> set S"
  proof
    fix g assume "g \<in> set (map fst (summary ?fd))"
    then have "g \<in> series_name ` set ?fd" by (simp only: summary_keys)
    then obtain r where r: "r \<in> set ?fd" and g: "g = series_name r" by auto
    from rows [OF r] have "series_name r = displayName (series_id r)" and "series_id r \<in> idsOf S"
      by (auto intro: annotated_name)
    with g show "g \<in> set S" by (simp add: displayName_selected)
  qed
  from views groups show ?thesis
    by (simp add: dashboard_def Let_def)
qed

theorem dashboard_inputs_witness:
  "data_table (dashboard example_raw [''Unemployment Rate''] (2019, 2020)) =
     [\<lparr>series_id = ''LNS14000000'', date = 1546300800000000000, year = 2019, val = Some 3.6,
       series_name = ''Unemployment Rate''\<rparr>,
      \<lparr>series_id = ''LNS14000000'', date = 1577836800000000000, year = 2020, val = Some 8.06,
       series_name = ''Unemployment Rate''\<rparr>]
   \<and> unemployment_chart (dashboard example_raw [''Unemployment Rate''] (2019, 2020)) =
      data_table (dashboard example_raw [''Unemployment Rate''] (2019, 2020))
   \<and> comparison_chart (dashboard example_raw [''Unemployment Rate''] (2019, 2020)) =
      comparison_chart (dashboard example_raw [] (2018, 2018))
   \<and> comparison_chart (dashboard example_raw [''Unemployment Rate''] (2019, 2020)) =
     [\<lparr>on_date = 1514764800000000000, avg_weekly_hours = Some 34.4,
       avg_hourly_earnings = Some 26.7\<rparr>]"
proof -
  note t = dashboard_inputs [of example_raw "[''Unemployment Rate'']" 2019 2020 "[]" "(2018, 2018)"]
  from t have d: "data_table (dashboard example_raw [''Unemployment Rate''] (2019, 2020)) =
      filtered_data (annotate example_raw) [''Unemployment Rate''] (2019, 2020)"
    by blast
  from t have u: "unemployment_chart (dashboard example_raw [''Unemployment Rate''] (2019, 2020)) =
      unemployment_data (filtered_data (annotate example_raw) [''Unemployment Rate''] (2019, 2020))"
    by blast
  from t have c: "comparison_chart (dashboard example_raw [''Unemployment Rate''] (2019, 2020)) =
      comparison_chart (dashboard example_raw [] (2018, 2018))"
    by blast
  from t have m: "comparison_chart (dashboard example_raw [''Unemployment Rate''] (2019, 2020)) =
      merged_data (annotate example_raw)"
    by blast
  from d u c m show ?thesis
    by (simp add: filtered_example_rate unemployment_data_def merged_example)
qed

subsection \<open>The filter on the example table\<close>

text \<open>
  The characterisation of the filter on the scenario of the specification: the rows
  kept are the two unemployment-rate rows of 2019 and 2020; the
  row of 2018 and the rows of the other series are dropped.
\<close>

theorem filtered_data_exact_witness:
  "filtered_data (annotate example_raw) [''Unemployment Rate''] (2019, 2020) =
    [\<lparr>series_id = ''LNS14000000'', date = 1546300800000000000, year = 2019, val = Some 3.6,
      series_name = ''Unemployment Rate''\<rparr>,
     \<lparr>series_id = ''LNS14000000'', date = 1577836800000000000, year = 2020, val = Some 8.06,
      series_name = ''Unemployment Rate''\<rparr>]"
proof -
  from filtered_data_exact [of "annotate example_raw" "[''Unemployment Rate'']" 2019 2020]
  have "filtered_data (annotate example_raw) [''Unemployment Rate''] (2019, 2020) =
      filter (\<lambda>r. series_id r \<in> idsOf [''Unemployment Rate''] \<and> 2019 \<le> year r \<and> year r \<le> 2020)
        (annotate example_raw)"
    by (rule conjunct1)
  then show ?thesis
    by (simp add: annotate_example_raw idsOf_def series_names_def)
qed

subsection \<open>Export and re-reading\<close>

















end
